theory Spec2Isabelle
  imports Main "HOL-Library.Multiset"
begin

section \<open>Errors raised by the client\<close>

text \<open>
  Every exception the modelled code can raise is a value.  \<open>ValueError\<close> carries
  the message of the \<^verbatim>\<open>raise\<close> statement; \<open>KeyError\<close> and \<open>IndexError\<close> are the
  failures of dictionary and list subscription; the last two are the failures
  of the remote collaborators (a body that is not JSON, a transport failure).
\<close>

datatype error =
    ValueError string
  | KeyError
  | IndexError
  | JSONDecodeError
  | TransportError

section \<open>The similarity data model (ontobio/model/similarity.py)\<close>

text \<open>
  \<^verbatim>\<open>class Node\<close> with its subclass \<^verbatim>\<open>ICNode\<close>; the subclass is the record
  extension.  Numbers coming from JSON (scores, information content) have the
  type \<open>'num\<close>; the ranker only compares them, so it is defined for every
  linear order (Python integers, and floats without NaN).
\<close>

record Node =
  id' :: string
  label :: "string option"

record 'num ICNode = Node +
  IC :: 'num

record 'num PairwiseMatch =
  query :: "'num ICNode"
  match :: "'num ICNode"
  lcs :: "'num ICNode"

section \<open>Raw service results\<close>

text \<open>
  One element of \<^verbatim>\<open>sim_resp['results']\<close>, a Python dictionary.  The keys the
  client reads are its fields: \<^verbatim>\<open>result['j']['id']\<close>, \<^verbatim>\<open>result['j']['label']\<close>,
  the numeric score fields (a dictionary from the response key to the number,
  so that a missing score key is a \<open>KeyError\<close>), \<^verbatim>\<open>result['matches']\<close> and
  \<^verbatim>\<open>result['rank']\<close>, which is absent until the ranker stores it.
\<close>

record 'num raw_pairwise =
  pm_a :: "'num ICNode"
  pm_b :: "'num ICNode"
  pm_lcs :: "'num ICNode"

record 'num owlsim_result =
  j_id :: string
  j_label :: string
  scores :: "string \<rightharpoonup> 'num"
  matches :: "'num raw_pairwise list"
  rank :: "int option"

section \<open>Scoring methods\<close>

text \<open>
  Modelled from the spec: the enumeration \<^verbatim>\<open>SimAlgorithm\<close> of
  ontobio/vocabulary/similarity.py is not among the sources; its members are
  the five methods that \<^verbatim>\<open>method2key\<close> and \<^verbatim>\<open>matchers()\<close> name (Phenodigm,
  Jaccard, SimGIC, Resnik and Symmetric Resnik in the glossary).
\<close>

datatype SimAlgorithm = PHENODIGM | JACCARD | SIM_GIC | RESNIK | SYMMETRIC_RESNIK

definition method2key :: "SimAlgorithm \<rightharpoonup> string" where
  "method2key =
     [PHENODIGM \<mapsto> ''combinedScore'',
      JACCARD \<mapsto> ''simJ'',
      SIM_GIC \<mapsto> ''simGIC'',
      RESNIK \<mapsto> ''bmaAsymIC'',
      SYMMETRIC_RESNIK \<mapsto> ''bmaSymIC'']"

definition matchers :: "SimAlgorithm list" where
  "matchers = [PHENODIGM, JACCARD, SIM_GIC, RESNIK, SYMMETRIC_RESNIK]"

text \<open>The expression \<^verbatim>\<open>result[OwlSim2Api.method2key[method]]\<close>: two subscriptions,
  each of which raises \<open>KeyError\<close> on a missing key.\<close>

definition result_score :: "SimAlgorithm \<Rightarrow> 'num owlsim_result \<Rightarrow> error + 'num" where
  "result_score method result =
     (case method2key method of
        None \<Rightarrow> Inl KeyError
      | Some key \<Rightarrow>
          (case scores result key of
             None \<Rightarrow> Inl KeyError
           | Some s \<Rightarrow> Inr s))"

section \<open>The result ranker\<close>

text \<open>
  \<^verbatim>\<open>sorted(results, reverse=True, key=...)\<close>.  Python first computes the key of
  every element, in list order, so the first failing key is the error of the
  call.  With \<^verbatim>\<open>reverse=True\<close> CPython keeps the sort stable by reversing the
  list, sorting it with its stable ascending sort and reversing the outcome;
  \<open>sort_key\<close> is the stable ascending sort.
\<close>

fun key_values :: "('a \<Rightarrow> error + 'k) \<Rightarrow> 'a list \<Rightarrow> error + 'k list" where
  "key_values key [] = Inr []"
| "key_values key (x # xs) =
     (case key x of
        Inl e \<Rightarrow> Inl e
      | Inr k \<Rightarrow>
          (case key_values key xs of
             Inl e \<Rightarrow> Inl e
           | Inr ks \<Rightarrow> Inr (k # ks)))"

definition sorted_reverse :: "('a \<Rightarrow> error + 'k::linorder) \<Rightarrow> 'a list \<Rightarrow> error + 'a list" where
  "sorted_reverse key xs =
     (case key_values key xs of
        Inl e \<Rightarrow> Inl e
      | Inr ks \<Rightarrow> Inr (map snd (rev (sort_key fst (rev (zip ks xs))))))"

text \<open>
  The loop of \<^verbatim>\<open>_rank_results\<close> over the sorted list, with the loop state
  (\<^verbatim>\<open>rank\<close>, \<^verbatim>\<open>previous_score\<close>) as arguments.  The assignment
  \<^verbatim>\<open>result['rank'] = rank\<close> is the record update.
\<close>

fun rank_loop ::
  "SimAlgorithm \<Rightarrow> int \<Rightarrow> 'num::linorder \<Rightarrow> 'num owlsim_result list \<Rightarrow>
     error + 'num owlsim_result list" where
  "rank_loop method rnk previous_score [] = Inr []"
| "rank_loop method rnk previous_score (result # rest) =
     (case result_score method result of
        Inl e \<Rightarrow> Inl e
      | Inr s \<Rightarrow>
          (let rnk' = (if previous_score > s then rnk + 1 else rnk) in
           (case rank_loop method rnk' s rest of
              Inl e \<Rightarrow> Inl e
            | Inr rest' \<Rightarrow> Inr (result\<lparr>rank := Some rnk'\<rparr> # rest'))))"

text \<open>
  \<^verbatim>\<open>_rank_results\<close>: sort, read the score of \<^verbatim>\<open>sorted_results[0]\<close> (an
  \<open>IndexError\<close> on the empty list), run the loop from rank 1.
\<close>

definition rank_results ::
  "'num::linorder owlsim_result list \<Rightarrow> SimAlgorithm \<Rightarrow> error + 'num owlsim_result list" where
  "rank_results rs method =
     (case sorted_reverse (result_score method) rs of
        Inl e \<Rightarrow> Inl e
      | Inr sorted_results \<Rightarrow>
          (case sorted_results of
             [] \<Rightarrow> Inl IndexError
           | first # _ \<Rightarrow>
               (case result_score method first of
                  Inl e \<Rightarrow> Inl e
                | Inr previous_score \<Rightarrow> rank_loop method 1 previous_score sorted_results)))"

text \<open>
  The ranks the loop assigns, as a function of the scores alone (the loop with
  the records left out); the theorems about the loop are stated through it.
\<close>

fun loop_ranks :: "int \<Rightarrow> 'k::linorder \<Rightarrow> 'k list \<Rightarrow> int list" where
  "loop_ranks rnk previous_score [] = []"
| "loop_ranks rnk previous_score (s # ss) =
     (let rnk' = (if previous_score > s then rnk + 1 else rnk) in rnk' # loop_ranks rnk' s ss)"

section \<open>The namespace resolver\<close>

definition TAX_TO_NS :: "int \<rightharpoonup> (string \<rightharpoonup> string)" where
  "TAX_TO_NS =
     [10090 \<mapsto> [''gene'' \<mapsto> ''MGI''],
      9606 \<mapsto> [''disease'' \<mapsto> ''MONDO'', ''case'' \<mapsto> ''MONARCH'', ''gene'' \<mapsto> ''HGNC''],
      7227 \<mapsto> [''gene'' \<mapsto> ''FlyBase''],
      6239 \<mapsto> [''gene'' \<mapsto> ''WormBase''],
      7955 \<mapsto> [''gene'' \<mapsto> ''ZFIN'']]"

definition taxon_category_default :: "int \<rightharpoonup> string" where
  "taxon_category_default =
     [10090 \<mapsto> ''gene'',
      9606 \<mapsto> ''disease'',
      7227 \<mapsto> ''gene'',
      6239 \<mapsto> ''gene'',
      7955 \<mapsto> ''gene'']"

text \<open>\<^verbatim>\<open>str.lower()\<close> on the ASCII letters; every other character is kept.\<close>

definition lower_char :: "char \<Rightarrow> char" where
  "lower_char c =
     (let n = (of_char c :: nat) in if 65 \<le> n \<and> n \<le> 90 then char_of (n + 32) else c)"

definition lower :: "string \<Rightarrow> string" where
  "lower s = map lower_char s"

text \<open>The last line of \<^verbatim>\<open>_get_namespace_filter\<close>:
  \<^verbatim>\<open>OwlSim2Api.TAX_TO_NS[taxon_filter][category_filter.lower()]\<close>.\<close>

definition table_lookup :: "int \<Rightarrow> string \<Rightarrow> error + string option" where
  "table_lookup taxon category =
     (case TAX_TO_NS taxon of
        None \<Rightarrow> Inl KeyError
      | Some by_category \<Rightarrow>
          (case by_category (lower category) of
             None \<Rightarrow> Inl KeyError
           | Some ns \<Rightarrow> Inr (Some ns)))"

text \<open>
  \<^verbatim>\<open>_get_namespace_filter\<close>, branch by branch: the \<^verbatim>\<open>if\<close> raises, the \<^verbatim>\<open>elif\<close> takes
  the default category and falls through to the table lookup, and the \<^verbatim>\<open>else\<close>
  (both filters absent, or both present) returns \<^verbatim>\<open>namespace_filter\<close>, which is
  still \<^verbatim>\<open>None\<close>.
\<close>

definition get_namespace_filter :: "int option \<Rightarrow> string option \<Rightarrow> error + string option" where
  "get_namespace_filter taxon_filter category_filter =
     (if category_filter \<noteq> None \<and> taxon_filter = None then
        Inl (ValueError ''Must provide taxon filter along with category'')
      else if category_filter = None \<and> taxon_filter \<noteq> None then
        (case taxon_filter of
           None \<Rightarrow> Inr None
         | Some taxon \<Rightarrow>
             (case taxon_category_default taxon of
                None \<Rightarrow> Inl KeyError
              | Some category \<Rightarrow> table_lookup taxon category))
      else Inr None)"

section \<open>Similarity matches and results (ontobio/model/similarity.py)\<close>

text \<open>
  The fields of \<^verbatim>\<open>SimMatch\<close> with a union type are datatypes: \<^verbatim>\<open>rank\<close> is an
  integer or a string, \<^verbatim>\<open>significance\<close> a number, a string or \<^verbatim>\<open>None\<close>, and
  \<^verbatim>\<open>taxon\<close> is handed either a \<^verbatim>\<open>Node\<close> or the empty dictionary \<^verbatim>\<open>{}\<close>.
\<close>

datatype rank_value = RankInt int | RankStr string

datatype 'num significance_value = SigNum 'num | SigStr string | SigNone

datatype taxon_value = TaxonNode Node | EmptyDict

record 'num SimMatch =
  id' :: string
  label :: string
  rank :: rank_value
  score :: 'num
  type' :: "string option"
  taxon :: taxon_value
  significance :: "'num significance_value"
  pairwise_match :: "'num PairwiseMatch list"

record SimQuery =
  ids :: "Node list"
  negated_ids :: "Node list"
  unresolved_ids :: "string list"
  target_ids :: "Node list list"

record 'num SimResult =
  query :: SimQuery
  matches :: "'num SimMatch list"

section \<open>The similarity client (ontobio/sim/api/owlsim2.py)\<close>

subsection \<open>Effects\<close>

text \<open>
  What a call does beyond returning: it logs, it sends a GET request to the
  owlsim2 service, it asks the identifier collaborators.  Each of these is an
  event, and an operation returns its outcome together with the events it
  caused, in order.
\<close>

datatype param = ListParam "string list" | OptParam "string option"

datatype event =
    LogWarning string
  | HttpGet string "(string \<times> param) list" int
  | NodesFromIds "string list"
  | IdTypeMap "string list"

fun is_warning :: "event \<Rightarrow> bool" where
  "is_warning (LogWarning _) = True"
| "is_warning _ = False"

fun is_network_call :: "event \<Rightarrow> bool" where
  "is_network_call (LogWarning _) = False"
| "is_network_call _ = True"

fun is_http_get :: "event \<Rightarrow> bool" where
  "is_http_get (HttpGet _ _ _) = True"
| "is_http_get _ = False"

type_synonym 'a io = "(error + 'a) \<times> event list"

definition io_pure :: "error + 'a \<Rightarrow> 'a io" where
  "io_pure r = (r, [])"

definition io_call :: "event \<Rightarrow> error + 'a \<Rightarrow> 'a io" where
  "io_call ev r = (r, [ev])"

definition io_bind :: "'a io \<Rightarrow> ('a \<Rightarrow> 'b io) \<Rightarrow> 'b io" where
  "io_bind m f =
     (case m of
        (Inl e, tr) \<Rightarrow> (Inl e, tr)
      | (Inr x, tr) \<Rightarrow> (case f x of (r, tr') \<Rightarrow> (r, tr @ tr')))"

subsection \<open>The service response and the collaborators\<close>

text \<open>
  The JSON object that \<^verbatim>\<open>searchByAttributeSet\<close> and \<^verbatim>\<open>compareAttributeSets\<close>
  answer with, at the keys the client consumes; \<^verbatim>\<open>target_IRIs\<close> is there in a
  compare response only.
\<close>

record 'num sim_resp =
  query_IRIs :: "string list"
  unresolved :: "string list"
  results :: "'num owlsim_result list"
  target_IRIs :: "string list option"

text \<open>The instance: \<^verbatim>\<open>self.url\<close> and \<^verbatim>\<open>self.timeout\<close>.\<close>

record OwlSim2Api =
  url :: string
  timeout :: int

text \<open>
  Modelled from the spec: the collaborators are not among the sources and are
  parameters of the model.  \<open>requests_get_json\<close> is
  \<^verbatim>\<open>requests.get(url, params=params, timeout=timeout).json()\<close> against the remote
  service; \<open>get_nodes_from_ids\<close> and \<open>get_id_type_map\<close> are the functions of
  ontobio/util/scigraph_util.py (identifier resolution, and the ordered type
  tags of each identifier).  Each may fail.
\<close>

record 'num collaborators =
  requests_get_json :: "string \<Rightarrow> (string \<times> param) list \<Rightarrow> int \<Rightarrow> error + 'num sim_resp"
  get_nodes_from_ids :: "string list \<Rightarrow> error + Node list"
  get_id_type_map :: "string list \<Rightarrow> error + (string \<rightharpoonup> string list)"

subsection \<open>Requests\<close>

definition search_by_attribute_set ::
  "OwlSim2Api \<Rightarrow> 'num collaborators \<Rightarrow> string list \<Rightarrow> string option \<Rightarrow> 'num sim_resp io" where
  "search_by_attribute_set self env profile namespace_filter =
     (let owlsim_url = url self @ ''searchByAttributeSet'';
          params = [(''a'', ListParam profile), (''target'', OptParam namespace_filter)]
      in io_call (HttpGet owlsim_url params (timeout self))
           (requests_get_json env owlsim_url params (timeout self)))"

definition compare_attribute_sets ::
  "OwlSim2Api \<Rightarrow> 'num collaborators \<Rightarrow> string list \<Rightarrow> string list \<Rightarrow> 'num sim_resp io" where
  "compare_attribute_sets self env profile_a profile_b =
     (let owlsim_url = url self @ ''compareAttributeSets'';
          params = [(''a'', ListParam profile_a), (''b'', ListParam profile_b)]
      in io_call (HttpGet owlsim_url params (timeout self))
           (requests_get_json env owlsim_url params (timeout self)))"

subsection \<open>Result assembly\<close>

definition human_tax :: Node where
  "human_tax = \<lparr>Node.id' = ''NCBITaxon:9606'', Node.label = Some ''Homo sapiens''\<rparr>"

definition NS_TO_TAX :: "string \<rightharpoonup> Node" where
  "NS_TO_TAX =
     [''MGI'' \<mapsto> \<lparr>Node.id' = ''NCBITaxon:10090'', Node.label = Some ''Mus musculus''\<rparr>,
      ''MONDO'' \<mapsto> human_tax,
      ''OMIM'' \<mapsto> human_tax,
      ''MONARCH'' \<mapsto> human_tax,
      ''HGNC'' \<mapsto> human_tax,
      ''FlyBase'' \<mapsto> \<lparr>Node.id' = ''NCBITaxon:7227'', Node.label = Some ''Drosophila melanogaster''\<rparr>,
      ''WormBase'' \<mapsto> \<lparr>Node.id' = ''NCBITaxon:6239'', Node.label = Some ''Caenorhabditis elegans''\<rparr>,
      ''ZFIN'' \<mapsto> \<lparr>Node.id' = ''NCBITaxon:7955'', Node.label = Some ''Danio rerio''\<rparr>]"

text \<open>\<^verbatim>\<open>_make_pairwise_matches\<close>: one \<^verbatim>\<open>PairwiseMatch\<close> for each element of
  \<^verbatim>\<open>result['matches']\<close>, in order.\<close>

definition make_pairwise_matches :: "'num owlsim_result \<Rightarrow> 'num PairwiseMatch list" where
  "make_pairwise_matches result =
     map (\<lambda>pairwise_match.
            \<lparr>PairwiseMatch.query = pm_a pairwise_match,
             PairwiseMatch.match = pm_b pairwise_match,
             PairwiseMatch.lcs = pm_lcs pairwise_match\<rparr>)
         (owlsim_result.matches result)"

text \<open>\<^verbatim>\<open>s.split(":")[0]\<close>: the part of the string before its first colon.\<close>

definition split_colon_first :: "string \<Rightarrow> string" where
  "split_colon_first s = takeWhile (\<lambda>c. c \<noteq> CHR '':'') s"

text \<open>
  The body of the assembly loop: the \<^verbatim>\<open>SimMatch\<close> built from one ranked result.
  The arguments of the constructor are evaluated in the order written, so the
  first failing subscription is the error: \<^verbatim>\<open>result['rank']\<close> (read in search
  mode only), the score, then \<^verbatim>\<open>id_type_map[...][0]\<close>.
\<close>

definition sim_match ::
  "string \<Rightarrow> SimAlgorithm \<Rightarrow> (string \<rightharpoonup> string list) \<Rightarrow> 'num owlsim_result \<Rightarrow>
     error + 'num SimMatch" where
  "sim_match mode method id_type_map result =
     (let ns = split_colon_first (j_id result);
          tax = (case NS_TO_TAX ns of Some node \<Rightarrow> TaxonNode node | None \<Rightarrow> EmptyDict)
      in
      (case (if mode = ''search''
             then (case owlsim_result.rank result of
                     None \<Rightarrow> Inl KeyError
                   | Some n \<Rightarrow> Inr (RankInt n))
             else Inr (RankStr ''NaN'')) of
         Inl e \<Rightarrow> Inl e
       | Inr rnk \<Rightarrow>
           (case result_score method result of
              Inl e \<Rightarrow> Inl e
            | Inr s \<Rightarrow>
                (case id_type_map (j_id result) of
                   None \<Rightarrow> Inl KeyError
                 | Some types \<Rightarrow>
                     (case types of
                        [] \<Rightarrow> Inl IndexError
                      | t # _ \<Rightarrow>
                          Inr \<lparr>SimMatch.id' = j_id result,
                               SimMatch.label = j_label result,
                               SimMatch.rank = rnk,
                               SimMatch.score = s,
                               SimMatch.type' = Some t,
                               SimMatch.taxon = tax,
                               SimMatch.significance = SigStr ''NaN'',
                               SimMatch.pairwise_match = make_pairwise_matches result\<rparr>)))))"

fun build_matches ::
  "string \<Rightarrow> SimAlgorithm \<Rightarrow> (string \<rightharpoonup> string list) \<Rightarrow> 'num owlsim_result list \<Rightarrow>
     error + 'num SimMatch list" where
  "build_matches mode method id_type_map [] = Inr []"
| "build_matches mode method id_type_map (result # rest) =
     (case sim_match mode method id_type_map result of
        Inl e \<Rightarrow> Inl e
      | Inr m \<Rightarrow>
          (case build_matches mode method id_type_map rest of
             Inl e \<Rightarrow> Inl e
           | Inr ms \<Rightarrow> Inr (m # ms)))"

text \<open>
  \<^verbatim>\<open>_simsearch_to_simresult\<close>.  \<^verbatim>\<open>SimQuery\<close> is built without \<^verbatim>\<open>negated_ids\<close>, so
  the field takes the constructor's default, the empty list.
\<close>

definition simsearch_to_simresult ::
  "'num::linorder collaborators \<Rightarrow> 'num sim_resp \<Rightarrow> SimAlgorithm \<Rightarrow> string \<Rightarrow> 'num SimResult io" where
  "simsearch_to_simresult env resp method mode =
     io_bind (io_call (NodesFromIds (query_IRIs resp)) (get_nodes_from_ids env (query_IRIs resp)))
       (\<lambda>sim_ids.
     io_bind (io_pure (rank_results (results resp) method))
       (\<lambda>ranked.
     io_bind (io_call (IdTypeMap (map j_id ranked)) (get_id_type_map env (map j_id ranked)))
       (\<lambda>id_type_map.
     io_bind (io_pure (build_matches mode method id_type_map ranked))
       (\<lambda>ms.
     io_bind
       (if mode = ''compare'' then
          (case target_IRIs resp of
             None \<Rightarrow> io_pure (Inl KeyError)
           | Some iris \<Rightarrow>
               io_bind (io_call (NodesFromIds iris) (get_nodes_from_ids env iris))
                 (\<lambda>nodes. io_pure (Inr [nodes])))
        else io_pure (Inr [Nil]))
       (\<lambda>tids.
     io_pure (Inr \<lparr>SimResult.query =
                     \<lparr>ids = sim_ids, negated_ids = [],
                      unresolved_ids = unresolved resp, target_ids = tids\<rparr>,
                   SimResult.matches = ms\<rparr>))))))"

subsection \<open>The public operations\<close>

definition compare ::
  "OwlSim2Api \<Rightarrow> 'num::linorder collaborators \<Rightarrow> string list \<Rightarrow> string list \<Rightarrow> SimAlgorithm \<Rightarrow>
     'num SimResult io" where
  "compare self env reference_classes query_classes method =
     io_bind (compare_attribute_sets self env reference_classes query_classes)
       (\<lambda>owlsim_results. simsearch_to_simresult env owlsim_results method ''compare'')"

definition filtered_search ::
  "OwlSim2Api \<Rightarrow> 'num::linorder collaborators \<Rightarrow> string list \<Rightarrow> string list \<Rightarrow>
     int option \<Rightarrow> string option \<Rightarrow> SimAlgorithm \<Rightarrow> 'num SimResult io" where
  "filtered_search self env id_list negated_classes taxon_filter category_filter method =
     io_bind
       (if length negated_classes > 0
        then io_call (LogWarning ''Owlsim2 does not support negation, ignoring neg classes'')
               (Inr ())
        else io_pure (Inr ()))
       (\<lambda>_.
     io_bind (io_pure (get_namespace_filter taxon_filter category_filter))
       (\<lambda>namespace_filter.
     io_bind (search_by_attribute_set self env id_list namespace_filter)
       (\<lambda>owlsim_results. simsearch_to_simresult env owlsim_results method ''search'')))"

definition search ::
  "OwlSim2Api \<Rightarrow> 'num::linorder collaborators \<Rightarrow> string list \<Rightarrow> string list \<Rightarrow> SimAlgorithm \<Rightarrow>
     'num SimResult io" where
  "search self env id_list negated_classes method =
     filtered_search self env id_list negated_classes None None method"

section \<open>Concrete inputs\<close>

text \<open>
  A result with one score field, a response with the scores 10, 10 and 7 under
  the Phenodigm key, and collaborators that answer every request with it.
\<close>

definition scored :: "string \<Rightarrow> string \<Rightarrow> int \<Rightarrow> int owlsim_result" where
  "scored ident key s =
     \<lparr>j_id = ident, j_label = ident, scores = [key \<mapsto> s],
      owlsim_result.matches = [], owlsim_result.rank = None\<rparr>"

definition example_results :: "int owlsim_result list" where
  "example_results =
     [scored ''MONDO:1'' ''combinedScore'' 10,
      scored ''MONDO:2'' ''combinedScore'' 10,
      scored ''MGI:3'' ''combinedScore'' 7]"

definition example_resp :: "int sim_resp" where
  "example_resp =
     \<lparr>query_IRIs = [''HP:1''], unresolved = [], results = example_results,
      target_IRIs = Some [''HP:2'']\<rparr>"

definition example_env :: "int collaborators" where
  "example_env =
     \<lparr>requests_get_json = (\<lambda>u params t. Inr example_resp),
      get_nodes_from_ids = (\<lambda>xs. Inr (map (\<lambda>i. \<lparr>Node.id' = i, Node.label = None\<rparr>) xs)),
      get_id_type_map = (\<lambda>xs. Inr (\<lambda>i. if i \<in> set xs then Some [''disease''] else None))\<rparr>"

definition example_api :: OwlSim2Api where
  "example_api = \<lparr>url = ''http://owlsim/'', timeout = 5\<rparr>"

section \<open>Properties of the sort\<close>

lemma key_values_Inr:
  "\<forall>x\<in>set xs. key x = Inr (g x) \<Longrightarrow> key_values key xs = Inr (map g xs)"
  by (induction xs) simp_all

lemma key_values_Inr_D:
  "key_values key xs = Inr ks \<Longrightarrow> \<forall>x\<in>set xs. key x = Inr (projr (key x))"
  by (induction xs arbitrary: ks) (auto split: sum.splits)

lemma key_values_Inl_D:
  "key_values key xs = Inl e \<Longrightarrow> \<exists>x\<in>set xs. key x = Inl e"
  by (induction xs) (auto split: sum.splits)

lemma insort_key_decorate:
  "insort_key fst (g x, x) (map (\<lambda>y. (g y, y)) ys) = map (\<lambda>y. (g y, y)) (insort_key g x ys)"
  by (induction ys) simp_all

lemma sort_key_decorate:
  "sort_key fst (map (\<lambda>y. (g y, y)) ys) = map (\<lambda>y. (g y, y)) (sort_key g ys)"
  by (induction ys) (simp_all add: insort_key_decorate)

lemma zip_decorate: "zip (map g xs) xs = map (\<lambda>y. (g y, y)) xs"
  by (induction xs) simp_all

lemma sorted_reverse_Inr:
  assumes "\<forall>x\<in>set xs. key x = Inr (g x)"
  shows "sorted_reverse key xs = Inr (rev (sort_key g (rev xs)))"
proof -
  have "rev (zip (map g xs) xs) = map (\<lambda>y. (g y, y)) (rev xs)"
    by (simp add: zip_decorate rev_map)
  then have "map snd (rev (sort_key fst (rev (zip (map g xs) xs)))) = rev (sort_key g (rev xs))"
    by (simp add: sort_key_decorate rev_map comp_def)
  then show ?thesis
    by (simp add: sorted_reverse_def key_values_Inr [OF assms])
qed



section \<open>Properties of the ranking loop\<close>


lemma result_score_error: "result_score m r = Inl e \<Longrightarrow> e = KeyError"
  by (simp add: result_score_def split: option.splits)

lemma length_loop_ranks: "length (loop_ranks k p ss) = length ss"
  by (induction ss arbitrary: k p) (simp_all add: Let_def)


lemma rank_loop_eq:
  "\<forall>r\<in>set rs. result_score m r = Inr (g r) \<Longrightarrow>
     rank_loop m k p rs =
       Inr (map2 (\<lambda>r n. r\<lparr>owlsim_result.rank := Some n\<rparr>) rs (loop_ranks k p (map g rs)))"
  by (induction rs arbitrary: k p) (simp_all add: Let_def)

lemma rank_loop_error: "rank_loop m k p rs = Inl e \<Longrightarrow> e = KeyError"
  by (induction rs arbitrary: k p)
     (auto simp: Let_def split: sum.splits dest: result_score_error)



lemma map2_rank_list_all2:
  "length ns = length xs \<Longrightarrow>
     list_all2 (\<lambda>r out. \<exists>n. out = r\<lparr>owlsim_result.rank := Some n\<rparr>) xs
       (map2 (\<lambda>r n. r\<lparr>owlsim_result.rank := Some n\<rparr>) xs ns)"
  by (induction ns xs rule: list_induct2) auto

text \<open>What \<open>rank_results\<close> returns on a non-empty list of scored results:
  the descending stable sort, with the ranks of the loop.\<close>

lemma rank_results_eq:
  assumes "rs \<noteq> []" and "\<forall>r\<in>set rs. result_score m r = Inr (g r)"
  shows "rank_results rs m =
           Inr (map2 (\<lambda>r n. r\<lparr>owlsim_result.rank := Some n\<rparr>) (rev (sort_key g (rev rs)))
                  (loop_ranks 1 (g (hd (rev (sort_key g (rev rs)))))
                     (map g (rev (sort_key g (rev rs))))))"
proof -
  let ?srt = "rev (sort_key g (rev rs))"
  have srt: "sorted_reverse (result_score m) rs = Inr ?srt"
    using assms(2) by (rule sorted_reverse_Inr)
  have "length ?srt = length rs" by simp
  with assms(1) obtain first rest where fr: "?srt = first # rest"
    by (cases ?srt) auto
  have "set ?srt = set rs" by simp
  with assms(2) have all: "\<forall>r\<in>set ?srt. result_score m r = Inr (g r)" by simp
  with fr have first: "result_score m first = Inr (g first)" by simp
  from all have "rank_loop m 1 (g first) ?srt =
      Inr (map2 (\<lambda>r n. r\<lparr>owlsim_result.rank := Some n\<rparr>) ?srt (loop_ranks 1 (g first) (map g ?srt)))"
    by (rule rank_loop_eq)
  with srt fr first show ?thesis
    by (simp add: rank_results_def)
qed


lemma rank_results_error:
  assumes "rank_results rs m = Inl e" and "rs \<noteq> []"
  shows "e = KeyError"
proof (cases "key_values (result_score m) rs")
  case (Inl e')
  from key_values_Inl_D [OF this] obtain x where "x \<in> set rs" and x: "result_score m x = Inl e'"
    by blast
  from x have "e' = KeyError" by (rule result_score_error)
  with Inl assms(1) show ?thesis
    by (simp add: rank_results_def sorted_reverse_def)
next
  case (Inr ks)
  then have all: "\<forall>r\<in>set rs. result_score m r = Inr (projr (result_score m r))"
    by (rule key_values_Inr_D)
  from rank_results_eq [OF assms(2) all] assms(1) show ?thesis by simp
qed

section \<open>Rank sequences\<close>



section \<open>The ranking contract\<close>



text \<open>
  Claim C7.  On the empty list \<open>rank_results\<close> returns no value: reading
  \<^verbatim>\<open>sorted_results[0]\<close> fails with \<open>IndexError\<close>, whatever the method.  On a
  non-empty list that failure cannot happen.
\<close>

theorem rank_results_empty_fails:
  fixes rs :: "'num::linorder owlsim_result list"
  shows "rank_results ([] :: 'num owlsim_result list) method = Inl IndexError
   \<and> (rs \<noteq> [] \<longrightarrow> rank_results rs method \<noteq> Inl IndexError)"
proof (intro conjI impI)
  show "rank_results ([] :: 'num owlsim_result list) method = Inl IndexError"
    by (simp add: rank_results_def sorted_reverse_def)
next
  assume ne: "rs \<noteq> []"
  show "rank_results rs method \<noteq> Inl IndexError"
  proof
    assume "rank_results rs method = Inl IndexError"
    from rank_results_error [OF this ne] show False by simp
  qed
qed

theorem rank_results_empty_fails_witness:
  "example_results \<noteq> []
   \<and> rank_results example_results PHENODIGM \<noteq> Inl IndexError
   \<and> rank_results ([] :: int owlsim_result list) PHENODIGM = Inl IndexError"
proof -
  have ne: "example_results \<noteq> []" by (simp add: example_results_def)
  from rank_results_empty_fails [of PHENODIGM example_results] ne
  show ?thesis by simp
qed



text \<open>
  Claim C10.  On a non-empty list of scored results the output is a permutation
  of the input in which each record has its \<^verbatim>\<open>rank\<close> field set and nothing else
  changed: no record is dropped, none is duplicated.
\<close>

theorem rank_results_permutation:
  assumes "rs \<noteq> []" and "\<forall>r\<in>set rs. \<exists>s. result_score method r = Inr s"
  shows "\<exists>out srt.
           rank_results rs method = Inr out
           \<and> mset srt = mset rs
           \<and> length out = length rs
           \<and> list_all2 (\<lambda>r r'. \<exists>n. r' = r\<lparr>owlsim_result.rank := Some n\<rparr>) srt out"
proof -
  define g where "g r = projr (result_score method r)" for r :: "'a owlsim_result"
  define srt where "srt = rev (sort_key g (rev rs))"
  define ns where "ns = loop_ranks 1 (g (hd srt)) (map g srt)"
  define out where "out = map2 (\<lambda>r n. r\<lparr>owlsim_result.rank := Some n\<rparr>) srt ns"
  from assms(2) have sc: "\<forall>r\<in>set rs. result_score method r = Inr (g r)"
    by (auto simp: g_def)
  have ret: "rank_results rs method = Inr out"
    unfolding out_def ns_def srt_def by (rule rank_results_eq [OF assms(1) sc])
  have len: "length ns = length srt"
    by (simp add: ns_def length_loop_ranks)
  have shape: "list_all2 (\<lambda>r r'. \<exists>n. r' = r\<lparr>owlsim_result.rank := Some n\<rparr>) srt out"
    unfolding out_def using len by (rule map2_rank_list_all2)
  have perm: "mset srt = mset rs" by (simp add: srt_def)
  have "length out = length rs"
    using len by (simp add: out_def srt_def)
  with ret perm shape show ?thesis by blast
qed

theorem rank_results_permutation_witness:
  "example_results \<noteq> []
   \<and> map (result_score PHENODIGM) example_results = [Inr 10, Inr 10, Inr 7]
   \<and> (\<exists>out srt.
         rank_results example_results PHENODIGM = Inr out
         \<and> mset srt = mset example_results
         \<and> length out = length example_results
         \<and> list_all2 (\<lambda>r r'. \<exists>n. r' = r\<lparr>owlsim_result.rank := Some n\<rparr>) srt out)"
proof -
  have sc: "result_score PHENODIGM (scored i ''combinedScore'' s) = Inr s" for i s
    by (simp add: result_score_def method2key_def scored_def)
  have ne: "example_results \<noteq> []" by (simp add: example_results_def)
  have all: "\<forall>r\<in>set example_results. \<exists>s. result_score PHENODIGM r = Inr s"
    by (simp add: example_results_def sc)
  have "map (result_score PHENODIGM) example_results = [Inr 10, Inr 10, Inr 7]"
    by (simp add: example_results_def sc)
  with rank_results_permutation [OF ne all] ne show ?thesis by blast
qed

section \<open>The namespace resolver: what the branches return\<close>

lemma lower_gene: "lower ''gene'' = ''gene''"
  by (simp add: lower_def lower_char_def)

lemma lower_disease: "lower ''disease'' = ''disease''"
  by (simp add: lower_def lower_char_def)

lemma get_namespace_filter_both: "get_namespace_filter (Some tx) (Some category) = Inr None"
  by (simp add: get_namespace_filter_def)

lemma get_namespace_filter_taxon_only:
  "taxon_category_default tx = Some category \<Longrightarrow>
     get_namespace_filter (Some tx) None = table_lookup tx category"
  by (simp add: get_namespace_filter_def)

lemma get_namespace_filter_category_only:
  "get_namespace_filter None (Some category) =
     Inl (ValueError ''Must provide taxon filter along with category'')"
  by (simp add: get_namespace_filter_def)

lemma get_namespace_filter_default_9606:
  "get_namespace_filter (Some 9606) None = Inr (Some ''MONDO'')"
  by (simp add: get_namespace_filter_def taxon_category_default_def table_lookup_def
      TAX_TO_NS_def lower_disease)

text \<open>
  Claim C2.  With both filters supplied the function takes the \<^verbatim>\<open>else\<close> branch and
  returns \<^verbatim>\<open>None\<close>; the table lookup of the last line is never reached.  At taxon
  9606 and category \<^verbatim>\<open>gene\<close> the table holds \<^verbatim>\<open>HGNC\<close>, and the function returns no
  filter.
\<close>

theorem get_namespace_filter_both_present_returns_none:
  "get_namespace_filter (Some 9606) (Some ''gene'') = Inr None
   \<and> table_lookup 9606 ''gene'' = Inr (Some ''HGNC'')"
  by (simp add: get_namespace_filter_def table_lookup_def TAX_TO_NS_def lower_gene)

text \<open>
  Claim C3.  With only taxon 9606 the function resolves to the table entry of
  (9606, \<^verbatim>\<open>disease\<close>), which is \<^verbatim>\<open>MONDO\<close>; with taxon 9606 and its default
  category \<^verbatim>\<open>disease\<close> supplied it returns \<^verbatim>\<open>None\<close>, so the two calls differ.
\<close>

theorem get_namespace_filter_default_differs:
  "get_namespace_filter (Some 9606) None = Inr (Some ''MONDO'')
   \<and> taxon_category_default 9606 = Some ''disease''
   \<and> table_lookup 9606 ''disease'' = Inr (Some ''MONDO'')
   \<and> get_namespace_filter (Some 9606) (Some ''disease'') = Inr None"
  by (simp add: get_namespace_filter_def taxon_category_default_def table_lookup_def
      TAX_TO_NS_def lower_disease)

section \<open>Properties of the effect combinators\<close>

lemma io_bind_Inr_D:
  "io_bind m f = (Inr y, tr) \<Longrightarrow> \<exists>x t1 t2. m = (Inr x, t1) \<and> f x = (Inr y, t2) \<and> tr = t1 @ t2"
  by (auto simp: io_bind_def split: prod.splits sum.splits)

lemma fst_io_bind:
  "fst (io_bind m f) = (case fst m of Inl e \<Rightarrow> Inl e | Inr x \<Rightarrow> fst (f x))"
  by (auto simp: io_bind_def split: prod.splits sum.splits)

lemma snd_io_bind:
  "snd (io_bind m f) = snd m @ (case fst m of Inl e \<Rightarrow> [] | Inr x \<Rightarrow> snd (f x))"
  by (auto simp: io_bind_def split: prod.splits sum.splits)

section \<open>Properties of the result assembly\<close>

lemma sim_match_significance:
  "sim_match mode method itm r = Inr x \<Longrightarrow> significance x = SigStr ''NaN''"
  by (auto simp: sim_match_def Let_def split: if_splits option.splits sum.splits list.splits)

lemma sim_match_rank_search:
  "sim_match ''search'' method itm r = Inr x \<Longrightarrow>
     \<exists>n. owlsim_result.rank r = Some n \<and> SimMatch.rank x = RankInt n"
  by (auto simp: sim_match_def Let_def split: if_splits option.splits sum.splits list.splits)

lemma sim_match_rank_other:
  "mode \<noteq> ''search'' \<Longrightarrow> sim_match mode method itm r = Inr x \<Longrightarrow>
     SimMatch.rank x = RankStr ''NaN''"
  by (auto simp: sim_match_def Let_def split: if_splits option.splits sum.splits list.splits)

lemma build_matches_D:
  "build_matches mode method itm rs = Inr ms \<Longrightarrow>
     list_all2 (\<lambda>r x. sim_match mode method itm r = Inr x) rs ms"
  by (induction rs arbitrary: ms) (auto split: sum.splits)

lemma simsearch_to_simresult_D:
  assumes "simsearch_to_simresult env resp method mode = (Inr res, tr)"
  shows "\<exists>ranked itm.
           rank_results (results resp) method = Inr ranked
           \<and> build_matches mode method itm ranked = Inr (SimResult.matches res)"
  using assms unfolding simsearch_to_simresult_def
  by (fastforce simp: io_pure_def dest!: io_bind_Inr_D)

section \<open>The events of a search\<close>

lemma simsearch_trace_no_warning:
  "filter is_warning (snd (simsearch_to_simresult env resp method mode)) = []"
  by (simp add: simsearch_to_simresult_def snd_io_bind fst_io_bind io_pure_def io_call_def
      split: sum.splits option.splits)

lemma simsearch_trace_no_http:
  "filter is_http_get (snd (simsearch_to_simresult env resp method mode)) = []"
  by (simp add: simsearch_to_simresult_def snd_io_bind fst_io_bind io_pure_def io_call_def
      split: sum.splits option.splits)

lemma filtered_search_negated:
  "negated_classes \<noteq> [] \<Longrightarrow>
   filtered_search self env id_list negated_classes tx category method =
     (fst (filtered_search self env id_list [] tx category method),
      LogWarning ''Owlsim2 does not support negation, ignoring neg classes''
        # snd (filtered_search self env id_list [] tx category method))"
  by (simp add: filtered_search_def io_bind_def io_pure_def io_call_def
      split: prod.splits sum.splits)

lemma filtered_search_no_warning:
  "filter is_warning (snd (filtered_search self env id_list [] tx category method)) = []"
  by (simp add: filtered_search_def search_by_attribute_set_def Let_def snd_io_bind fst_io_bind
      io_pure_def io_call_def simsearch_trace_no_warning split: sum.splits)

lemma filtered_search_http:
  "get_namespace_filter tx category = Inr ns \<Longrightarrow>
   filter is_http_get (snd (filtered_search self env id_list [] tx category method)) =
     [HttpGet (url self @ ''searchByAttributeSet'')
        [(''a'', ListParam id_list), (''target'', OptParam ns)] (timeout self)]"
  by (simp add: filtered_search_def search_by_attribute_set_def Let_def snd_io_bind fst_io_bind
      io_pure_def io_call_def simsearch_trace_no_http split: sum.splits)

lemma filtered_search_invalid:
  "filtered_search self env id_list [] None (Some category) method =
     (Inl (ValueError ''Must provide taxon filter along with category''), [])"
  by (simp add: filtered_search_def io_bind_def io_pure_def io_call_def
      get_namespace_filter_def)

section \<open>The concrete inputs, run\<close>

lemma example_scores:
  "result_score PHENODIGM (scored i ''combinedScore'' s) = Inr s"
  by (simp add: result_score_def method2key_def scored_def)

lemma example_ranked:
  "rank_results example_results PHENODIGM =
     Inr [scored ''MONDO:1'' ''combinedScore'' 10 \<lparr>owlsim_result.rank := Some 1\<rparr>,
          scored ''MONDO:2'' ''combinedScore'' 10 \<lparr>owlsim_result.rank := Some 1\<rparr>,
          scored ''MGI:3'' ''combinedScore'' 7 \<lparr>owlsim_result.rank := Some 2\<rparr>]"
  by (simp add: example_results_def rank_results_def sorted_reverse_def example_scores)

lemma example_assembly:
  "\<exists>res tr. simsearch_to_simresult example_env example_resp PHENODIGM mode = (Inr res, tr)
      \<and> length (SimResult.matches res) = 3"
  by (simp add: simsearch_to_simresult_def io_bind_def io_pure_def io_call_def
      example_env_def example_resp_def example_ranked sim_match_def Let_def
      result_score_def method2key_def scored_def)

lemma example_compare:
  "\<exists>res tr. compare example_api example_env [''HP:1''] [''HP:2''] PHENODIGM = (Inr res, tr)
      \<and> length (SimResult.matches res) = 3"
proof -
  from example_assembly [of "''compare''"] obtain res tr where
    "simsearch_to_simresult example_env example_resp PHENODIGM ''compare'' = (Inr res, tr)"
    and "length (SimResult.matches res) = 3"
    by blast
  then show ?thesis
    by (simp add: compare_def compare_attribute_sets_def Let_def io_bind_def io_call_def
        example_env_def)
qed

lemma example_search:
  "\<exists>res tr. filtered_search example_api example_env [''HP:1''] [''HP:9''] (Some 9606) None PHENODIGM
        = (Inr res, tr)
      \<and> length (SimResult.matches res) = 3"
proof -
  from example_assembly [of "''search''"] obtain res tr where
    "simsearch_to_simresult example_env example_resp PHENODIGM ''search'' = (Inr res, tr)"
    and "length (SimResult.matches res) = 3"
    by blast
  then show ?thesis
    by (simp add: filtered_search_def search_by_attribute_set_def Let_def io_bind_def io_call_def
        io_pure_def example_env_def get_namespace_filter_default_9606)
qed

section \<open>The client's contract\<close>

text \<open>
  Claim C4.  With a category and no taxon the resolver fails with the
  \<open>ValueError\<close> of the invalid filter combination, for every category; and
  \<open>filtered_search\<close> called that way fails with the same error having issued
  no request and no collaborator call (its only possible event is the warning
  about negated classes).
\<close>

theorem category_without_taxon_rejected:
  "get_namespace_filter None (Some category) =
     Inl (ValueError ''Must provide taxon filter along with category'')
   \<and> fst (filtered_search self env id_list negated_classes None (Some category) method) =
       Inl (ValueError ''Must provide taxon filter along with category'')
   \<and> filter is_network_call
       (snd (filtered_search self env id_list negated_classes None (Some category) method)) = []"
proof (intro conjI)
  show "get_namespace_filter None (Some category) =
     Inl (ValueError ''Must provide taxon filter along with category'')"
    by (rule get_namespace_filter_category_only)
next
  show "fst (filtered_search self env id_list negated_classes None (Some category) method) =
       Inl (ValueError ''Must provide taxon filter along with category'')"
    by (cases "negated_classes = []")
       (simp_all add: filtered_search_invalid filtered_search_negated)
next
  show "filter is_network_call
       (snd (filtered_search self env id_list negated_classes None (Some category) method)) = []"
    by (cases "negated_classes = []")
       (simp_all add: filtered_search_invalid filtered_search_negated)
qed

theorem category_without_taxon_rejected_witness:
  "get_namespace_filter None (Some ''gene'') =
     Inl (ValueError ''Must provide taxon filter along with category'')
   \<and> fst (filtered_search example_api example_env [''HP:1''] [''HP:9''] None (Some ''gene'')
          PHENODIGM) =
       Inl (ValueError ''Must provide taxon filter along with category'')
   \<and> filter is_network_call
       (snd (filtered_search example_api example_env [''HP:1''] [''HP:9''] None (Some ''gene'')
          PHENODIGM)) = []"
  by (rule category_without_taxon_rejected)

text \<open>
  Claim C5.  Every match of a result that \<open>compare\<close> returns has the rank
  \<^verbatim>\<open>"NaN"\<close>.  Every match of a result that \<open>filtered_search\<close> (and so \<open>search\<close>)
  returns has the integer rank that \<open>rank_results\<close> stored in the corresponding
  result of the service's response.
\<close>

theorem compare_rank_sentinel:
  "(compare self env reference_classes query_classes method = (Inr res, tr) \<longrightarrow>
      (\<forall>x\<in>set (SimResult.matches res). SimMatch.rank x = RankStr ''NaN''))
   \<and> (filtered_search self env id_list negated_classes tx category method = (Inr res', tr') \<longrightarrow>
        (\<exists>ns resp ranked.
           get_namespace_filter tx category = Inr ns
           \<and> requests_get_json env (url self @ ''searchByAttributeSet'')
                [(''a'', ListParam id_list), (''target'', OptParam ns)] (timeout self) = Inr resp
           \<and> rank_results (results resp) method = Inr ranked
           \<and> list_all2 (\<lambda>r x. \<exists>n. owlsim_result.rank r = Some n \<and> SimMatch.rank x = RankInt n)
                ranked (SimResult.matches res')))
   \<and> search self env id_list negated_classes method =
       filtered_search self env id_list negated_classes None None method"
proof (intro conjI impI)
  assume "compare self env reference_classes query_classes method = (Inr res, tr)"
  then obtain resp t where
    "simsearch_to_simresult env resp method ''compare'' = (Inr res, t)"
    unfolding compare_def by (blast dest: io_bind_Inr_D)
  from simsearch_to_simresult_D [OF this] obtain ranked itm where
    "build_matches ''compare'' method itm ranked = Inr (SimResult.matches res)"
    by blast
  from build_matches_D [OF this]
  have "list_all2 (\<lambda>r x. sim_match ''compare'' method itm r = Inr x) ranked (SimResult.matches res)" .
  then have "list_all2 (\<lambda>r x. SimMatch.rank x = RankStr ''NaN'') ranked (SimResult.matches res)"
  proof (rule list_all2_mono)
    fix r x
    assume "sim_match ''compare'' method itm r = Inr x"
    moreover have "''compare'' \<noteq> ''search''" by simp
    ultimately show "SimMatch.rank x = RankStr ''NaN''"
      by (rule sim_match_rank_other [rotated])
  qed
  then show "\<forall>x\<in>set (SimResult.matches res). SimMatch.rank x = RankStr ''NaN''"
    by (auto simp: list_all2_conv_all_nth in_set_conv_nth)
next
  assume "filtered_search self env id_list negated_classes tx category method = (Inr res', tr')"
  then obtain ns resp t where
    ns: "get_namespace_filter tx category = Inr ns"
    and get: "requests_get_json env (url self @ ''searchByAttributeSet'')
                [(''a'', ListParam id_list), (''target'', OptParam ns)] (timeout self) = Inr resp"
    and sim: "simsearch_to_simresult env resp method ''search'' = (Inr res', t)"
    unfolding filtered_search_def search_by_attribute_set_def Let_def
    by (fastforce simp: io_pure_def io_call_def dest!: io_bind_Inr_D)
  from simsearch_to_simresult_D [OF sim] obtain ranked itm where
    ranked: "rank_results (results resp) method = Inr ranked"
    and "build_matches ''search'' method itm ranked = Inr (SimResult.matches res')"
    by blast
  from build_matches_D [OF this(2)]
  have "list_all2 (\<lambda>r x. sim_match ''search'' method itm r = Inr x) ranked (SimResult.matches res')" .
  then have "list_all2 (\<lambda>r x. \<exists>n. owlsim_result.rank r = Some n \<and> SimMatch.rank x = RankInt n)
                ranked (SimResult.matches res')"
    by (rule list_all2_mono) (rule sim_match_rank_search)
  with ns get ranked
  show "\<exists>ns resp ranked.
           get_namespace_filter tx category = Inr ns
           \<and> requests_get_json env (url self @ ''searchByAttributeSet'')
                [(''a'', ListParam id_list), (''target'', OptParam ns)] (timeout self) = Inr resp
           \<and> rank_results (results resp) method = Inr ranked
           \<and> list_all2 (\<lambda>r x. \<exists>n. owlsim_result.rank r = Some n \<and> SimMatch.rank x = RankInt n)
                ranked (SimResult.matches res')"
    by blast
next
  show "search self env id_list negated_classes method =
       filtered_search self env id_list negated_classes None None method"
    by (simp add: search_def)
qed

theorem compare_rank_sentinel_witness:
  "(\<exists>res tr. compare example_api example_env [''HP:1''] [''HP:2''] PHENODIGM = (Inr res, tr)
      \<and> length (SimResult.matches res) = 3
      \<and> list_all (\<lambda>x. SimMatch.rank x = RankStr ''NaN'') (SimResult.matches res))
   \<and> (\<exists>res tr. filtered_search example_api example_env [''HP:1''] [''HP:9''] (Some 9606) None
          PHENODIGM = (Inr res, tr)
      \<and> map SimMatch.rank (SimResult.matches res) = [RankInt 1, RankInt 1, RankInt 2])"
proof (intro conjI)
  from example_compare obtain res tr where
    run: "compare example_api example_env [''HP:1''] [''HP:2''] PHENODIGM = (Inr res, tr)"
    and len: "length (SimResult.matches res) = 3"
    by blast
  from compare_rank_sentinel [THEN conjunct1, rule_format, OF run]
  have "list_all (\<lambda>x. SimMatch.rank x = RankStr ''NaN'') (SimResult.matches res)"
    by (simp add: list_all_iff)
  with run len
  show "\<exists>res tr. compare example_api example_env [''HP:1''] [''HP:2''] PHENODIGM = (Inr res, tr)
      \<and> length (SimResult.matches res) = 3
      \<and> list_all (\<lambda>x. SimMatch.rank x = RankStr ''NaN'') (SimResult.matches res)"
    by blast
next
  from example_search obtain res tr where
    run: "filtered_search example_api example_env [''HP:1''] [''HP:9''] (Some 9606) None
          PHENODIGM = (Inr res, tr)"
    by blast
  from compare_rank_sentinel [THEN conjunct2, THEN conjunct1, rule_format, OF run]
  obtain resp ranked where
    "rank_results (results resp) PHENODIGM = Inr ranked"
    and resp: "resp = example_resp"
    and all2: "list_all2 (\<lambda>r x. \<exists>n. owlsim_result.rank r = Some n \<and> SimMatch.rank x = RankInt n)
                ranked (SimResult.matches res)"
    by (auto simp: example_env_def)
  then have "ranked =
     [scored ''MONDO:1'' ''combinedScore'' 10 \<lparr>owlsim_result.rank := Some 1\<rparr>,
      scored ''MONDO:2'' ''combinedScore'' 10 \<lparr>owlsim_result.rank := Some 1\<rparr>,
      scored ''MGI:3'' ''combinedScore'' 7 \<lparr>owlsim_result.rank := Some 2\<rparr>]"
    by (simp add: example_resp_def example_ranked)
  with all2 have "map SimMatch.rank (SimResult.matches res) = [RankInt 1, RankInt 1, RankInt 2]"
    by (auto simp: list_all2_Cons1)
  with run
  show "\<exists>res tr. filtered_search example_api example_env [''HP:1''] [''HP:9''] (Some 9606) None
          PHENODIGM = (Inr res, tr)
      \<and> map SimMatch.rank (SimResult.matches res) = [RankInt 1, RankInt 1, RankInt 2]"
    by simp
qed

text \<open>
  Claim C9.  Every match of a result that \<open>simsearch_to_simresult\<close> returns, in
  whatever mode, has the significance \<^verbatim>\<open>"NaN"\<close>, a string.
\<close>

theorem significance_always_nan:
  assumes "simsearch_to_simresult env resp method mode = (Inr res, tr)"
  shows "\<forall>x\<in>set (SimResult.matches res). significance x = SigStr ''NaN''"
proof -
  from simsearch_to_simresult_D [OF assms] obtain ranked itm where
    "build_matches mode method itm ranked = Inr (SimResult.matches res)"
    by blast
  from build_matches_D [OF this]
  have "list_all2 (\<lambda>r x. sim_match mode method itm r = Inr x) ranked (SimResult.matches res)" .
  then have "list_all2 (\<lambda>r x. significance x = SigStr ''NaN'') ranked (SimResult.matches res)"
    by (rule list_all2_mono) (rule sim_match_significance)
  then show ?thesis
    by (auto simp: list_all2_conv_all_nth in_set_conv_nth)
qed

theorem significance_always_nan_witness:
  "\<exists>res tr. simsearch_to_simresult example_env example_resp PHENODIGM ''search'' = (Inr res, tr)
      \<and> length (SimResult.matches res) = 3
      \<and> list_all (\<lambda>x. significance x = SigStr ''NaN'') (SimResult.matches res)"
proof -
  from example_assembly [of "''search''"] obtain res tr where
    run: "simsearch_to_simresult example_env example_resp PHENODIGM ''search'' = (Inr res, tr)"
    and len: "length (SimResult.matches res) = 3"
    by blast
  from significance_always_nan [OF run]
  have "list_all (\<lambda>x. significance x = SigStr ''NaN'') (SimResult.matches res)"
    by (simp add: list_all_iff)
  with run len show ?thesis by blast
qed

text \<open>
  Claim C6.  With no negated classes \<open>filtered_search\<close> logs no warning.  With
  some, it logs exactly one, first, and then does what the call without them
  does: the same outcome, the same requests.  The request to the service
  carries the parameters \<^verbatim>\<open>a\<close> (the profile) and \<^verbatim>\<open>target\<close> (the namespace) and
  nothing else.  \<open>search\<close> is \<open>filtered_search\<close> without filters.
\<close>

theorem negated_classes_only_warn:
  "filter is_warning (snd (filtered_search self env id_list [] tx category method)) = []
   \<and> (negated_classes \<noteq> [] \<longrightarrow>
        filter is_warning
          (snd (filtered_search self env id_list negated_classes tx category method)) =
          [LogWarning ''Owlsim2 does not support negation, ignoring neg classes'']
        \<and> fst (filtered_search self env id_list negated_classes tx category method) =
            fst (filtered_search self env id_list [] tx category method)
        \<and> snd (filtered_search self env id_list negated_classes tx category method) =
            LogWarning ''Owlsim2 does not support negation, ignoring neg classes''
              # snd (filtered_search self env id_list [] tx category method))
   \<and> (\<forall>ns. get_namespace_filter tx category = Inr ns \<longrightarrow>
        filter is_http_get
          (snd (filtered_search self env id_list negated_classes tx category method)) =
          [HttpGet (url self @ ''searchByAttributeSet'')
             [(''a'', ListParam id_list), (''target'', OptParam ns)] (timeout self)])
   \<and> search self env id_list negated_classes method =
       filtered_search self env id_list negated_classes None None method"
proof (intro conjI impI allI)
  show "filter is_warning (snd (filtered_search self env id_list [] tx category method)) = []"
    by (rule filtered_search_no_warning)
next
  assume "negated_classes \<noteq> []"
  then show "filter is_warning
          (snd (filtered_search self env id_list negated_classes tx category method)) =
          [LogWarning ''Owlsim2 does not support negation, ignoring neg classes'']"
    by (simp add: filtered_search_negated filtered_search_no_warning)
next
  assume "negated_classes \<noteq> []"
  then show "fst (filtered_search self env id_list negated_classes tx category method) =
            fst (filtered_search self env id_list [] tx category method)"
    by (simp add: filtered_search_negated)
next
  assume "negated_classes \<noteq> []"
  then show "snd (filtered_search self env id_list negated_classes tx category method) =
            LogWarning ''Owlsim2 does not support negation, ignoring neg classes''
              # snd (filtered_search self env id_list [] tx category method)"
    by (simp add: filtered_search_negated)
next
  fix ns
  assume "get_namespace_filter tx category = Inr ns"
  then show "filter is_http_get
          (snd (filtered_search self env id_list negated_classes tx category method)) =
          [HttpGet (url self @ ''searchByAttributeSet'')
             [(''a'', ListParam id_list), (''target'', OptParam ns)] (timeout self)]"
    by (cases "negated_classes = []")
       (simp_all add: filtered_search_negated filtered_search_http)
next
  show "search self env id_list negated_classes method =
       filtered_search self env id_list negated_classes None None method"
    by (simp add: search_def)
qed

theorem negated_classes_only_warn_witness:
  "filter is_warning
     (snd (filtered_search example_api example_env [''HP:1''] [''HP:9''] (Some 9606) None
        PHENODIGM)) =
     [LogWarning ''Owlsim2 does not support negation, ignoring neg classes'']
   \<and> filter is_http_get
       (snd (filtered_search example_api example_env [''HP:1''] [''HP:9''] (Some 9606) None
          PHENODIGM)) =
       [HttpGet ''http://owlsim/searchByAttributeSet''
          [(''a'', ListParam [''HP:1'']), (''target'', OptParam (Some ''MONDO''))] 5]
   \<and> filter is_warning
       (snd (filtered_search example_api example_env [''HP:1''] [] (Some 9606) None
          PHENODIGM)) = []"
proof -
  have ne: "[''HP:9''] \<noteq> []" by simp
  note inst = negated_classes_only_warn
    [of example_api example_env "[''HP:1'']" "Some 9606" None PHENODIGM "[''HP:9'']"]
  from inst have a: "filter is_warning
       (snd (filtered_search example_api example_env [''HP:1''] [] (Some 9606) None
          PHENODIGM)) = []"
    by blast
  from inst ne have b: "filter is_warning
     (snd (filtered_search example_api example_env [''HP:1''] [''HP:9''] (Some 9606) None
        PHENODIGM)) =
     [LogWarning ''Owlsim2 does not support negation, ignoring neg classes'']"
    by blast
  from inst get_namespace_filter_default_9606
  have "filter is_http_get
       (snd (filtered_search example_api example_env [''HP:1''] [''HP:9''] (Some 9606) None
          PHENODIGM)) =
       [HttpGet (url example_api @ ''searchByAttributeSet'')
          [(''a'', ListParam [''HP:1'']), (''target'', OptParam (Some ''MONDO''))]
          (timeout example_api)]"
    by blast
  then have c: "filter is_http_get
       (snd (filtered_search example_api example_env [''HP:1''] [''HP:9''] (Some 9606) None
          PHENODIGM)) =
       [HttpGet ''http://owlsim/searchByAttributeSet''
          [(''a'', ListParam [''HP:1'']), (''target'', OptParam (Some ''MONDO''))] 5]"
    by (simp add: example_api_def)
  from a b c show ?thesis by blast
qed

end
